theory Spec2Isabelle
  imports Main
begin

section \<open>The optimization goals of pysmt (pysmt/optimization/goal.py)\<close>

text \<open>
  The module declares a root class \<open>Goal\<close> with six predicates and five subclasses:
  two hold one formula, two hold a reference to a list of terms that \<open>add_terms\<close>
  extends in place, and \<open>MaxSMTGoal\<close> holds what the builtin \<open>zip\<close> returned.
  The module is read under Python 3, where \<open>zip\<close> returns a one-pass iterator object
  and not a list.

  Terms and weights are opaque to the module: they are the type parameters \<open>'t\<close> and
  \<open>'w\<close>, and two references to the same term are equal values.
\<close>

subsection \<open>Python values the module handles\<close>

text \<open>The two exceptions the operations of this module can end in.\<close>

datatype error = AttributeError | TypeError

text \<open>
  Sequencing of calls, any of which may raise: the first exception ends the run.
\<close>

fun and_then :: "error + 'a \<Rightarrow> ('a \<Rightarrow> error + 'b) \<Rightarrow> error + 'b" where
  "and_then (Inl e) f = Inl e"
| "and_then (Inr x) f = f x"

text \<open>
  List objects are mutable and shared, so they live in a heap and are passed by
  reference. An address the heap does not map is an object that is no list (a tuple, say,
  or \<open>None\<close>): it has no \<open>extend\<close> attribute.
\<close>

type_synonym addr = nat

type_synonym 't heap = "addr \<Rightarrow> 't list option"

text \<open>\<open>xs.extend(es)\<close>: appends the elements of \<open>es\<close> to the list object itself.\<close>

definition list_extend :: "addr \<Rightarrow> 't list \<Rightarrow> 't heap \<Rightarrow> error + 't heap" where
  "list_extend a es h =
     (case h a of
        None \<Rightarrow> Inl AttributeError
      | Some xs \<Rightarrow> Inr (h(a := Some (xs @ es))))"

text \<open>
  A list iterator: the list it walks and the index of the next element. The argument
  lists of \<open>MaxSMTGoal\<close> are not written by this module, so the iterator holds the list
  as it was handed in.
\<close>

datatype 'a list_iterator = ListIter (it_seq: "'a list") (it_index: nat)

text \<open>\<open>next(it)\<close> on a list iterator: \<open>None\<close> stands for \<open>StopIteration\<close>.\<close>

definition listiter_next :: "'a list_iterator \<Rightarrow> 'a option \<times> 'a list_iterator" where
  "listiter_next it =
     (if it_index it < length (it_seq it)
      then (Some (it_seq it ! it_index it), ListIter (it_seq it) (Suc (it_index it)))
      else (None, it))"

text \<open>
  The object \<open>zip(clause, weight)\<close> returns: one iterator over each argument, created
  when \<open>zip\<close> is called. Nothing is read from either argument at that point.
\<close>

datatype ('c, 'w) zip_object =
  ZipObject (clause_it: "'c list_iterator") (weight_it: "'w list_iterator")

text \<open>
  \<open>next(z)\<close> on a zip object asks its iterators in order and stops at the first one that
  is exhausted; an element already taken from the first iterator is then dropped.
\<close>

definition zip_next ::
  "('c, 'w) zip_object \<Rightarrow> ('c \<times> 'w) option \<times> ('c, 'w) zip_object" where
  "zip_next z =
     (case listiter_next (clause_it z) of
        (None, ci) \<Rightarrow> (None, ZipObject ci (weight_it z))
      | (Some c, ci) \<Rightarrow>
          (case listiter_next (weight_it z) of
             (None, wi) \<Rightarrow> (None, ZipObject ci wi)
           | (Some w, wi) \<Rightarrow> (Some (c, w), ZipObject ci wi)))"

text \<open>
  What the attribute \<open>soft\<close> of a \<open>MaxSMTGoal\<close> can refer to: a list of pairs, or a zip
  object.
\<close>

datatype ('c, 'w) soft_value =
  PyList "('c \<times> 'w) list"
| PyZip "('c, 'w) zip_object"

text \<open>
  The builtin \<open>zip\<close> of Python 3 on two lists. (Python 2 returned the list of pairs,
  \<open>PyList (zip clause weight)\<close>.)
\<close>

definition zip_builtin :: "'c list \<Rightarrow> 'w list \<Rightarrow> ('c, 'w) soft_value" where
  "zip_builtin clause weight = PyZip (ZipObject (ListIter clause 0) (ListIter weight 0))"

text \<open>
  \<open>s.append(p)\<close>: a list has the method and grows by one element at its end; a zip object
  has no attribute \<open>append\<close>.
\<close>

fun append_method ::
  "('c, 'w) soft_value \<Rightarrow> 'c \<times> 'w \<Rightarrow> error + ('c, 'w) soft_value" where
  "append_method (PyList ps) p = Inr (PyList (ps @ [p]))"
| "append_method (PyZip z) p = Inl AttributeError"

subsection \<open>The class hierarchy\<close>

datatype cls =
  Goal | MaximizationGoal | MinimizationGoal | MinMaxGoal | MaxMinGoal | MaxSMTGoal

text \<open>
  The method resolution order of each class: \<open>Goal\<close> derives from \<open>object\<close> alone, every
  other class is declared \<open>class X(Goal)\<close>.
\<close>

fun mro :: "cls \<Rightarrow> cls list" where
  "mro Goal = [Goal]"
| "mro c = [c, Goal]"

text \<open>
  An instance: its class and its attributes. \<open>Goal\<close> sets none; the two simple goals set
  \<open>formula\<close>; the two aggregate goals set \<open>term\<close> to the reference they were given;
  \<open>MaxSMTGoal\<close> sets \<open>soft\<close>.
\<close>

datatype ('t, 'w) goal =
  GoalObj
| MaximizationGoalObj 't
| MinimizationGoalObj 't
| MinMaxGoalObj addr
| MaxMinGoalObj addr
| MaxSMTGoalObj "('t, 'w) soft_value"

fun class_of :: "('t, 'w) goal \<Rightarrow> cls" where
  "class_of GoalObj = Goal"
| "class_of (MaximizationGoalObj f) = MaximizationGoal"
| "class_of (MinimizationGoalObj f) = MinimizationGoal"
| "class_of (MinMaxGoalObj a) = MinMaxGoal"
| "class_of (MaxMinGoalObj a) = MaxMinGoal"
| "class_of (MaxSMTGoalObj s) = MaxSMTGoal"

definition isinstance :: "('t, 'w) goal \<Rightarrow> cls \<Rightarrow> bool" where
  "isinstance self c = (c \<in> set (mro (class_of self)))"

subsection \<open>Class Goal: the predicates\<close>

definition is_maximization_goal :: "('t, 'w) goal \<Rightarrow> bool" where
  "is_maximization_goal self = isinstance self MaximizationGoal"

definition is_minimization_goal :: "('t, 'w) goal \<Rightarrow> bool" where
  "is_minimization_goal self = isinstance self MinimizationGoal"

definition is_minmax_goal :: "('t, 'w) goal \<Rightarrow> bool" where
  "is_minmax_goal self = isinstance self MinMaxGoal"

definition is_maxmin_goal :: "('t, 'w) goal \<Rightarrow> bool" where
  "is_maxmin_goal self = isinstance self MaxMinGoal"

definition is_maxsmt_goal :: "('t, 'w) goal \<Rightarrow> bool" where
  "is_maxsmt_goal self = isinstance self MaxSMTGoal"

text \<open>
  \<open>is_simple_goal\<close> is defined in \<open>Goal\<close> (it returns \<open>False\<close>) and again in four of the
  subclasses (it returns \<open>True\<close>). \<open>defines_is_simple_goal\<close> is the body each class gives
  the method, if it gives one; the call takes the first body along the method resolution
  order of the instance's class.
\<close>

fun defines_is_simple_goal :: "cls \<Rightarrow> bool option" where
  "defines_is_simple_goal Goal = Some False"
| "defines_is_simple_goal MaximizationGoal = Some True"
| "defines_is_simple_goal MinimizationGoal = Some True"
| "defines_is_simple_goal MinMaxGoal = Some True"
| "defines_is_simple_goal MaxMinGoal = Some True"
| "defines_is_simple_goal MaxSMTGoal = None"

fun resolve :: "(cls \<Rightarrow> 'm option) \<Rightarrow> cls list \<Rightarrow> 'm option" where
  "resolve body [] = None"
| "resolve body (c # cs) = (case body c of Some m \<Rightarrow> Some m | None \<Rightarrow> resolve body cs)"

definition is_simple_goal :: "('t, 'w) goal \<Rightarrow> error + bool" where
  "is_simple_goal self =
     (case resolve defines_is_simple_goal (mro (class_of self)) of
        None \<Rightarrow> Inl AttributeError
      | Some b \<Rightarrow> Inr b)"

subsection \<open>The constructors\<close>

text \<open>
  \<open>Goal()\<close>: the class has no \<open>__init__\<close> and nothing keeps it from being called.
\<close>

definition Goal_init :: "error + ('t, 'w) goal" where
  "Goal_init = Inr GoalObj"

definition MaximizationGoal_init :: "'t \<Rightarrow> error + ('t, 'w) goal" where
  "MaximizationGoal_init formula = Inr (MaximizationGoalObj formula)"

definition MinimizationGoal_init :: "'t \<Rightarrow> error + ('t, 'w) goal" where
  "MinimizationGoal_init formula = Inr (MinimizationGoalObj formula)"

text \<open>\<open>self.term = terms\<close>: the reference is stored, the list is not copied.\<close>

definition MinMaxGoal_init :: "addr \<Rightarrow> error + ('t, 'w) goal" where
  "MinMaxGoal_init terms = Inr (MinMaxGoalObj terms)"

definition MaxMinGoal_init :: "addr \<Rightarrow> error + ('t, 'w) goal" where
  "MaxMinGoal_init terms = Inr (MaxMinGoalObj terms)"

text \<open>\<open>self.soft = zip(clause, weight)\<close>: no length is compared, nothing is read.\<close>

definition MaxSMTGoal_init :: "'t list \<Rightarrow> 'w list \<Rightarrow> error + ('t, 'w) goal" where
  "MaxSMTGoal_init clause weight = Inr (MaxSMTGoalObj (zip_builtin clause weight))"

subsection \<open>The accessors and the mutators\<close>

text \<open>
  \<open>g.term()\<close>. The simple goals return \<open>self.formula\<close>. On an aggregate goal the name
  \<open>term\<close> is the instance attribute holding the list, and calling a list is a
  \<open>TypeError\<close>; the other classes have no such attribute.
\<close>

fun term_meth :: "('t, 'w) goal \<Rightarrow> error + 't" where
  "term_meth (MaximizationGoalObj formula) = Inr formula"
| "term_meth (MinimizationGoalObj formula) = Inr formula"
| "term_meth (MinMaxGoalObj a) = Inl TypeError"
| "term_meth (MaxMinGoalObj a) = Inl TypeError"
| "term_meth g = Inl AttributeError"

text \<open>\<open>g.terms()\<close> returns \<open>self.term\<close>: the reference itself.\<close>

fun terms :: "('t, 'w) goal \<Rightarrow> error + addr" where
  "terms (MinMaxGoalObj a) = Inr a"
| "terms (MaxMinGoalObj a) = Inr a"
| "terms g = Inl AttributeError"

text \<open>
  \<open>g.add_terms(*es)\<close> is \<open>self.term.extend(list(es))\<close>: the list the goal refers to is
  extended in place, and the goal object itself is not written.
\<close>

fun add_terms :: "('t, 'w) goal \<Rightarrow> 't list \<Rightarrow> 't heap \<Rightarrow> error + 't heap" where
  "add_terms (MinMaxGoalObj a) es h = list_extend a es h"
| "add_terms (MaxMinGoalObj a) es h = list_extend a es h"
| "add_terms g es h = Inl AttributeError"

text \<open>
  \<open>g.add_soft_clause(clause, weight)\<close> is \<open>self.soft.append((clause, weight))\<close>. The
  result is the goal after the call.
\<close>

fun add_soft_clause :: "('t, 'w) goal \<Rightarrow> 't \<Rightarrow> 'w \<Rightarrow> error + ('t, 'w) goal" where
  "add_soft_clause (MaxSMTGoalObj s) clause weight =
     (case append_method s (clause, weight) of
        Inl e \<Rightarrow> Inl e
      | Inr s' \<Rightarrow> Inr (MaxSMTGoalObj s'))"
| "add_soft_clause g clause weight = Inl AttributeError"

subsection \<open>Reading the soft pairs\<close>

text \<open>
  A \<open>for\<close> loop over a zip object (or \<open>list(z)\<close>) calls \<open>next\<close> until it stops, and
  leaves the zip object where the loop ended. Each round moves the clause iterator one
  element on, which bounds the loop.
\<close>

function zip_drain ::
  "('c, 'w) zip_object \<Rightarrow> ('c \<times> 'w) list \<times> ('c, 'w) zip_object" where
  "zip_drain z =
     (case zip_next z of
        (None, z') \<Rightarrow> ([], z')
      | (Some p, z') \<Rightarrow> (case zip_drain z' of (ps, z'') \<Rightarrow> (p # ps, z'')))"
  by pat_completeness auto
termination
  by (relation "measure (\<lambda>z. length (it_seq (clause_it z)) - it_index (clause_it z))")
     (auto simp: zip_next_def listiter_next_def split: if_splits)

text \<open>
  Iterating over the value of \<open>soft\<close>: a list hands out a fresh iterator each time and
  stays as it is; a zip object is its own iterator and is consumed.
\<close>

fun iterate ::
  "('c, 'w) soft_value \<Rightarrow> ('c \<times> 'w) list \<times> ('c, 'w) soft_value" where
  "iterate (PyList ps) = (ps, PyList ps)"
| "iterate (PyZip z) = (case zip_drain z of (ps, z') \<Rightarrow> (ps, PyZip z'))"

text \<open>
  The optimizer reads the pairs of a goal with a loop over \<open>goal.soft\<close>. The result is
  the pairs the loop saw and the goal after the loop.
\<close>

fun iterate_soft ::
  "('t, 'w) goal \<Rightarrow> error + (('t \<times> 'w) list \<times> ('t, 'w) goal)" where
  "iterate_soft (MaxSMTGoalObj s) =
     (case iterate s of (ps, s') \<Rightarrow> Inr (ps, MaxSMTGoalObj s'))"
| "iterate_soft g = Inl AttributeError"

subsection \<open>Sequences of calls on one goal\<close>

text \<open>
  Every operation the module offers on a goal, and the reading of \<open>soft\<close>. \<open>exec\<close>
  gives the goal and the heap after one call. The predicates and the two accessors only
  return a value. A call that raises has written nothing before it does, so the caller
  that catches the exception finds the goal and the heap as they were.
\<close>

datatype ('t, 'w) call =
  Call_is_maximization_goal
| Call_is_minimization_goal
| Call_is_minmax_goal
| Call_is_maxmin_goal
| Call_is_maxsmt_goal
| Call_is_simple_goal
| Call_term
| Call_terms
| Call_add_terms "'t list"
| Call_add_soft_clause 't 'w
| Call_iterate_soft

fun exec ::
  "('t, 'w) call \<Rightarrow> ('t, 'w) goal \<times> 't heap \<Rightarrow> ('t, 'w) goal \<times> 't heap" where
  "exec (Call_add_terms es) (g, h) =
     (case add_terms g es h of Inl e \<Rightarrow> (g, h) | Inr h' \<Rightarrow> (g, h'))"
| "exec (Call_add_soft_clause clause weight) (g, h) =
     (case add_soft_clause g clause weight of Inl e \<Rightarrow> (g, h) | Inr g' \<Rightarrow> (g', h))"
| "exec Call_iterate_soft (g, h) =
     (case iterate_soft g of Inl e \<Rightarrow> (g, h) | Inr (ps, g') \<Rightarrow> (g', h))"
| "exec c (g, h) = (g, h)"

section \<open>Properties\<close>

subsection \<open>Reading a zip object\<close>

declare zip_drain.simps [simp del]

text \<open>
  One loop over a zip object that stands at indices \<open>i\<close> and \<open>j\<close> of its two lists
  sees the positional pairs of what is left of them, up to the end of the shorter.
\<close>

lemma zip_drain_pairs:
  "fst (zip_drain (ZipObject (ListIter cs i) (ListIter ws j))) = zip (drop i cs) (drop j ws)"
proof (induction "ZipObject (ListIter cs i) (ListIter ws j)" arbitrary: i j
    rule: zip_drain.induct)
  case 1
  show ?case
  proof (cases "i < length cs \<and> j < length ws")
    case True
    then have n: "zip_next (ZipObject (ListIter cs i) (ListIter ws j))
        = (Some (cs ! i, ws ! j), ZipObject (ListIter cs (Suc i)) (ListIter ws (Suc j)))"
      by (simp add: zip_next_def listiter_next_def)
    have "fst (zip_drain (ZipObject (ListIter cs (Suc i)) (ListIter ws (Suc j))))
        = zip (drop (Suc i) cs) (drop (Suc j) ws)"
      using "1" [OF n [symmetric]] by simp
    with True n show ?thesis
      by (subst zip_drain.simps) (simp add: split_beta Cons_nth_drop_Suc [symmetric])
  next
    case False
    then have "fst (zip_next (ZipObject (ListIter cs i) (ListIter ws j))) = None"
      by (auto simp: zip_next_def listiter_next_def)
    with False show ?thesis
      by (subst zip_drain.simps) (auto simp: split_beta split: option.splits)
  qed
qed

text \<open>Once \<open>next\<close> has stopped, it stops again on the object it left behind.\<close>

lemma zip_next_stopped: "zip_next z = (None, z') \<Longrightarrow> fst (zip_next z') = None"
  by (cases z) (auto simp: zip_next_def listiter_next_def split: if_splits)

lemma zip_drain_stopped: "fst (zip_next z) = None \<Longrightarrow> fst (zip_drain z) = []"
  by (subst zip_drain.simps) (auto simp: split_beta split: option.splits)

lemma zip_drain_exhausts: "fst (zip_next (snd (zip_drain z))) = None"
proof (induction z rule: zip_drain.induct)
  case (1 z)
  show ?case
  proof (cases "zip_next z")
    case (Pair r z')
    show ?thesis
    proof (cases r)
      case None
      with Pair show ?thesis
        by (subst zip_drain.simps) (simp add: zip_next_stopped)
    next
      case (Some p)
      with Pair "1" [OF Pair [symmetric] Some] show ?thesis
        by (subst zip_drain.simps) (simp add: split_beta)
    qed
  qed
qed

text \<open>A second loop over the same zip object sees nothing, whatever the first one saw.\<close>

lemma zip_drain_twice: "fst (zip_drain (snd (zip_drain z))) = []"
  by (rule zip_drain_stopped) (rule zip_drain_exhausts)

text \<open>
  Where \<open>soft\<close> refers to a list, \<open>add_soft_clause\<close> appends and reading keeps the
  list: the behaviour \<open>add_soft_clause\<close> is written for.
\<close>

lemma add_soft_clause_on_list:
  "add_soft_clause (MaxSMTGoalObj (PyList ps)) clause weight
     = Inr (MaxSMTGoalObj (PyList (ps @ [(clause, weight)])))"
  by simp

lemma iterate_soft_on_list:
  "iterate_soft (MaxSMTGoalObj (PyList ps)) = Inr (ps, MaxSMTGoalObj (PyList ps))"
  by simp

text \<open>
  On a goal as the constructor leaves it, \<open>add_soft_clause\<close> raises for every input, and
  a second reading yields nothing for every input.
\<close>

lemma add_soft_clause_after_init:
  "and_then (MaxSMTGoal_init cs ws) (\<lambda>g. add_soft_clause g clause weight)
     = Inl AttributeError"
  by (simp add: MaxSMTGoal_init_def zip_builtin_def)

lemma second_reading_after_init:
  "and_then (MaxSMTGoal_init cs ws)
     (\<lambda>g. and_then (iterate_soft g)
        (\<lambda>(first, g'). and_then (iterate_soft g') (\<lambda>(second, g''). Inr second)))
   = Inr []"
  by (simp add: MaxSMTGoal_init_def zip_builtin_def split_beta zip_drain_twice)

subsection \<open>What a sequence of calls keeps\<close>

lemma class_of_exec: "class_of (fst (exec c (g, h))) = class_of g"
  by (cases c; cases g) (auto split: sum.splits prod.splits soft_value.splits)

lemma class_of_fold_exec: "class_of (fst (fold exec cs (g, h))) = class_of g"
proof (induction cs arbitrary: g h)
  case Nil
  show ?case by simp
next
  case (Cons c cs)
  obtain g' h' where e: "exec c (g, h) = (g', h')"
    by (cases "exec c (g, h)")
  with class_of_exec [of c g h] have "class_of g' = class_of g"
    by simp
  with Cons.IH [of g' h'] e show ?case
    by simp
qed

lemma exec_MaximizationGoal: "fst (exec c (MaximizationGoalObj f, h)) = MaximizationGoalObj f"
  by (cases c) simp_all

lemma exec_MinimizationGoal: "fst (exec c (MinimizationGoalObj f, h)) = MinimizationGoalObj f"
  by (cases c) simp_all

lemma fold_exec_MaximizationGoal:
  "fst (fold exec cs (MaximizationGoalObj f, h)) = MaximizationGoalObj f"
proof (induction cs arbitrary: h)
  case Nil
  show ?case by simp
next
  case (Cons c cs)
  from exec_MaximizationGoal [of c f h]
  obtain h' where "exec c (MaximizationGoalObj f, h) = (MaximizationGoalObj f, h')"
    by (cases "exec c (MaximizationGoalObj f, h)") simp
  with Cons.IH [of h'] show ?case
    by simp
qed

lemma fold_exec_MinimizationGoal:
  "fst (fold exec cs (MinimizationGoalObj f, h)) = MinimizationGoalObj f"
proof (induction cs arbitrary: h)
  case Nil
  show ?case by simp
next
  case (Cons c cs)
  from exec_MinimizationGoal [of c f h]
  obtain h' where "exec c (MinimizationGoalObj f, h) = (MinimizationGoalObj f, h')"
    by (cases "exec c (MinimizationGoalObj f, h)") simp
  with Cons.IH [of h'] show ?case
    by simp
qed

text \<open>An aggregate goal keeps the reference it was given through every call.\<close>

lemma exec_MinMaxGoal: "fst (exec c (MinMaxGoalObj a, h)) = MinMaxGoalObj a"
  by (cases c) (simp_all split: sum.splits)

lemma exec_MaxMinGoal: "fst (exec c (MaxMinGoalObj a, h)) = MaxMinGoalObj a"
  by (cases c) (simp_all split: sum.splits)

lemma fold_exec_MinMaxGoal: "fst (fold exec cs (MinMaxGoalObj a, h)) = MinMaxGoalObj a"
proof (induction cs arbitrary: h)
  case Nil
  show ?case by simp
next
  case (Cons c cs)
  from exec_MinMaxGoal [of c a h]
  obtain h' where "exec c (MinMaxGoalObj a, h) = (MinMaxGoalObj a, h')"
    by (cases "exec c (MinMaxGoalObj a, h)") simp
  with Cons.IH [of h'] show ?case
    by simp
qed

lemma fold_exec_MaxMinGoal: "fst (fold exec cs (MaxMinGoalObj a, h)) = MaxMinGoalObj a"
proof (induction cs arbitrary: h)
  case Nil
  show ?case by simp
next
  case (Cons c cs)
  from exec_MaxMinGoal [of c a h]
  obtain h' where "exec c (MaxMinGoalObj a, h) = (MaxMinGoalObj a, h')"
    by (cases "exec c (MaxMinGoalObj a, h)") simp
  with Cons.IH [of h'] show ?case
    by simp
qed

lemma MaxSMTGoal_cases: "class_of g = MaxSMTGoal \<Longrightarrow> \<exists>s. g = MaxSMTGoalObj s"
  by (cases g) simp_all

text \<open>
  Successive \<open>add_terms\<close> calls on one aggregate goal leave the list with every batch
  appended in the order of the calls.
\<close>

lemma add_terms_batches_MinMaxGoal:
  "h a = Some T \<Longrightarrow>
   snd (fold exec (map Call_add_terms Es) (MinMaxGoalObj a :: ('t, 'w) goal, h)) a
     = Some (T @ concat Es)"
proof (induction Es arbitrary: h T)
  case Nil
  then show ?case by simp
next
  case (Cons E Es)
  let ?h = "h(a := Some (T @ E))"
  let ?g = "MinMaxGoalObj a :: ('t, 'w) goal"
  have "snd (fold exec (map Call_add_terms (E # Es)) (?g, h)) a
      = snd (fold exec (map Call_add_terms Es) (?g, ?h)) a"
    using Cons.prems by (simp add: list_extend_def)
  also have "\<dots> = Some ((T @ E) @ concat Es)"
    by (rule Cons.IH) simp
  finally show ?case
    by simp
qed

lemma add_terms_batches_MaxMinGoal:
  "h a = Some T \<Longrightarrow>
   snd (fold exec (map Call_add_terms Es) (MaxMinGoalObj a :: ('t, 'w) goal, h)) a
     = Some (T @ concat Es)"
proof (induction Es arbitrary: h T)
  case Nil
  then show ?case by simp
next
  case (Cons E Es)
  let ?h = "h(a := Some (T @ E))"
  let ?g = "MaxMinGoalObj a :: ('t, 'w) goal"
  have "snd (fold exec (map Call_add_terms (E # Es)) (?g, h)) a
      = snd (fold exec (map Call_add_terms Es) (?g, ?h)) a"
    using Cons.prems by (simp add: list_extend_def)
  also have "\<dots> = Some ((T @ E) @ concat Es)"
    by (rule Cons.IH) simp
  finally show ?case
    by simp
qed

subsection \<open>The statements of the specification, checked on the code\<close>

text \<open>
  C1. After \<open>MaxSMTGoal([c1, c2], [w1, w2])\<close> and \<open>add_soft_clause(c3, w3)\<close> the stored
  pairs should be \<open>[(c1, w1), (c2, w2), (c3, w3)]\<close>. The code does not get there: \<open>soft\<close>
  is the zip object, which has no \<open>append\<close>, and the call raises \<open>AttributeError\<close>.
\<close>

theorem C1_add_soft_clause_raises:
  "and_then (MaxSMTGoal_init [''c1'', ''c2''] [1::int, 2])
     (\<lambda>g. add_soft_clause g ''c3'' 3)
   = Inl AttributeError"
  by (simp add: MaxSMTGoal_init_def zip_builtin_def)

text \<open>
  C2, as stated: constructing a \<open>MaxSMTGoal\<close> from sequences of different lengths raises
  an error. It does not: two clauses and one weight give a goal, and reading it yields
  the one pair the shorter input allows.
\<close>

theorem C2_mismatch_is_accepted:
  "length [''c1'', ''c2''] \<noteq> length [1::int] \<and>
   MaxSMTGoal_init [''c1'', ''c2''] [1::int]
     = Inr (MaxSMTGoalObj (PyZip (ZipObject (ListIter [''c1'', ''c2''] 0) (ListIter [1] 0)))) \<and>
   and_then (MaxSMTGoal_init [''c1'', ''c2''] [1::int]) iterate_soft
     = Inr ([(''c1'', 1)],
            MaxSMTGoalObj (PyZip (ZipObject (ListIter [''c1'', ''c2''] 2) (ListIter [1] 1))))"
  by code_simp

text \<open>
  C2, amended: constructing a \<open>MaxSMTGoal\<close> never fails, whatever the lengths of the two
  sequences; no length is checked, and the first reading of the new goal yields the
  positional pairs up to the length of the shorter sequence.
\<close>

theorem C2_construction_never_fails:
  "MaxSMTGoal_init clause weight = Inr (MaxSMTGoalObj (zip_builtin clause weight)) \<and>
   (\<exists>ps g'. and_then (MaxSMTGoal_init clause weight) iterate_soft = Inr (ps, g') \<and>
      ps = zip clause weight \<and>
      length ps = min (length clause) (length weight))"
proof -
  have "fst (zip_drain (ZipObject (ListIter clause 0) (ListIter weight 0))) = zip clause weight"
    using zip_drain_pairs [of clause 0 weight 0] by simp
  then show ?thesis
    by (simp add: MaxSMTGoal_init_def zip_builtin_def split_beta)
qed

text \<open>
  C3. The stored pairs should read the same every time. The code does not keep them:
  the first reading of a new \<open>MaxSMTGoal\<close> consumes the zip object, and a second reading
  of the same goal yields no pair at all.
\<close>

theorem C3_second_reading_is_empty:
  "and_then (MaxSMTGoal_init [''c1'', ''c2''] [1::int, 2])
     (\<lambda>g. and_then (iterate_soft g)
        (\<lambda>(first, g'). and_then (iterate_soft g')
           (\<lambda>(second, g''). Inr (first, second))))
   = Inr ([(''c1'', 1), (''c2'', 2)], [])"
  by code_simp

text \<open>
  C4. On an instance of one of the five subclasses, each kind predicate answers whether
  the instance is of its class, so exactly one of the five is true.
\<close>

theorem C4_exactly_one_kind:
  "class_of g \<noteq> Goal \<Longrightarrow>
   is_maximization_goal g = (class_of g = MaximizationGoal) \<and>
   is_minimization_goal g = (class_of g = MinimizationGoal) \<and>
   is_minmax_goal g = (class_of g = MinMaxGoal) \<and>
   is_maxmin_goal g = (class_of g = MaxMinGoal) \<and>
   is_maxsmt_goal g = (class_of g = MaxSMTGoal) \<and>
   length (filter (\<lambda>b. b)
     [is_maximization_goal g, is_minimization_goal g, is_minmax_goal g,
      is_maxmin_goal g, is_maxsmt_goal g]) = 1"
  by (cases g)
     (simp_all add: is_maximization_goal_def is_minimization_goal_def is_minmax_goal_def
        is_maxmin_goal_def is_maxsmt_goal_def isinstance_def)

theorem C4_exactly_one_kind_witness:
  "class_of (MinMaxGoalObj 0 :: (string, int) goal) \<noteq> Goal \<and>
   \<not> is_maximization_goal (MinMaxGoalObj 0 :: (string, int) goal) \<and>
   \<not> is_minimization_goal (MinMaxGoalObj 0 :: (string, int) goal) \<and>
   is_minmax_goal (MinMaxGoalObj 0 :: (string, int) goal) \<and>
   \<not> is_maxmin_goal (MinMaxGoalObj 0 :: (string, int) goal) \<and>
   \<not> is_maxsmt_goal (MinMaxGoalObj 0 :: (string, int) goal)"
  using C4_exactly_one_kind [of "MinMaxGoalObj 0 :: (string, int) goal"] by simp

text \<open>
  C5. \<open>is_simple_goal\<close> is true on the two simple and the two aggregate goals and false
  on a \<open>MaxSMTGoal\<close>, whose class gives the method no body of its own; on every instance
  whose class gives none, the call returns what the body in \<open>Goal\<close> returns, false.
\<close>

theorem C5_is_simple_goal:
  "is_simple_goal (MaximizationGoalObj f :: ('t, 'w) goal) = Inr True \<and>
   is_simple_goal (MinimizationGoalObj f :: ('t, 'w) goal) = Inr True \<and>
   is_simple_goal (MinMaxGoalObj a :: ('t, 'w) goal) = Inr True \<and>
   is_simple_goal (MaxMinGoalObj a :: ('t, 'w) goal) = Inr True \<and>
   is_simple_goal (MaxSMTGoalObj s :: ('t, 'w) goal) = Inr False \<and>
   defines_is_simple_goal MaxSMTGoal = None \<and>
   defines_is_simple_goal Goal = Some False \<and>
   is_simple_goal (g :: ('t, 'w) goal)
     = Inr (case defines_is_simple_goal (class_of g) of None \<Rightarrow> False | Some b \<Rightarrow> b)"
  by (cases g) (simp_all add: is_simple_goal_def)

text \<open>
  C6. For a list \<open>T\<close> at reference \<open>a\<close> and terms \<open>E\<close>: after \<open>MinMaxGoal(T)\<close> and
  \<open>add_terms(*E)\<close>, the list \<open>terms()\<close> returns holds \<open>T\<close> followed by \<open>E\<close>; after
  several \<open>add_terms\<close> calls it holds \<open>T\<close> followed by every batch, in the order of the
  calls. The same for \<open>MaxMinGoal\<close>.
\<close>

theorem C6_add_terms_appends:
  "h a = Some T \<Longrightarrow>
   and_then (MinMaxGoal_init a :: error + ('t, 'w) goal)
     (\<lambda>g. and_then (add_terms g E h)
        (\<lambda>h'. and_then (terms g) (\<lambda>r. Inr (h' r))))
     = Inr (Some (T @ E)) \<and>
   and_then (MaxMinGoal_init a :: error + ('t, 'w) goal)
     (\<lambda>g. and_then (add_terms g E h)
        (\<lambda>h'. and_then (terms g) (\<lambda>r. Inr (h' r))))
     = Inr (Some (T @ E)) \<and>
   and_then (MinMaxGoal_init a :: error + ('t, 'w) goal)
     (\<lambda>g. and_then (terms (fst (fold exec (map Call_add_terms Es) (g, h))))
        (\<lambda>r. Inr (snd (fold exec (map Call_add_terms Es) (g, h)) r)))
     = Inr (Some (T @ concat Es)) \<and>
   and_then (MaxMinGoal_init a :: error + ('t, 'w) goal)
     (\<lambda>g. and_then (terms (fst (fold exec (map Call_add_terms Es) (g, h))))
        (\<lambda>r. Inr (snd (fold exec (map Call_add_terms Es) (g, h)) r)))
     = Inr (Some (T @ concat Es))"
  by (simp add: MinMaxGoal_init_def MaxMinGoal_init_def list_extend_def
        fold_exec_MinMaxGoal fold_exec_MaxMinGoal
        add_terms_batches_MinMaxGoal add_terms_batches_MaxMinGoal)

theorem C6_add_terms_appends_witness:
  "(Map.empty(0 := Some [''x'', ''y''])) (0::nat) = Some [''x'', ''y''] \<and>
   and_then (MinMaxGoal_init 0 :: error + (string, int) goal)
     (\<lambda>g. and_then (add_terms g [''z''] (Map.empty(0 := Some [''x'', ''y''])))
        (\<lambda>h'. and_then (terms g) (\<lambda>r. Inr (h' r))))
     = Inr (Some [''x'', ''y'', ''z'']) \<and>
   and_then (MaxMinGoal_init 0 :: error + (string, int) goal)
     (\<lambda>g. and_then (add_terms g [''z''] (Map.empty(0 := Some [''x'', ''y''])))
        (\<lambda>h'. and_then (terms g) (\<lambda>r. Inr (h' r))))
     = Inr (Some [''x'', ''y'', ''z''])"
  using C6_add_terms_appends
    [where ?'w = int, of "Map.empty(0 := Some [''x'', ''y''])" 0 "[''x'', ''y'']" "[''z'']" "[]"]
  by simp

text \<open>
  C7. \<open>term()\<close> of a new \<open>MaximizationGoal(f)\<close> or \<open>MinimizationGoal(f)\<close> is \<open>f\<close>, and it
  is still \<open>f\<close> after any sequence of calls on the goal.
\<close>

theorem C7_term_is_the_argument:
  "and_then (MaximizationGoal_init f :: error + ('t, 'w) goal) term_meth = Inr f \<and>
   and_then (MinimizationGoal_init f :: error + ('t, 'w) goal) term_meth = Inr f \<and>
   and_then (MaximizationGoal_init f :: error + ('t, 'w) goal)
     (\<lambda>g. term_meth (fst (fold exec cs (g, h)))) = Inr f \<and>
   and_then (MinimizationGoal_init f :: error + ('t, 'w) goal)
     (\<lambda>g. term_meth (fst (fold exec cs (g, h)))) = Inr f"
  by (simp add: MaximizationGoal_init_def MinimizationGoal_init_def
        fold_exec_MaximizationGoal fold_exec_MinimizationGoal)

text \<open>
  C8. On a goal that was constructed, and after any sequence of calls on it, \<open>term()\<close> of
  a simple goal, \<open>terms()\<close> of an aggregate goal and a loop over the pairs of a
  \<open>MaxSMTGoal\<close> return a value: none of them raises, and the loop ends.
\<close>

theorem C8_accessors_return:
  "(\<exists>v. and_then (MaximizationGoal_init f :: error + ('t, 'w) goal)
          (\<lambda>g. term_meth (fst (fold exec cs (g, h)))) = Inr v) \<and>
   (\<exists>v. and_then (MinimizationGoal_init f :: error + ('t, 'w) goal)
          (\<lambda>g. term_meth (fst (fold exec cs (g, h)))) = Inr v) \<and>
   (\<exists>r. and_then (MinMaxGoal_init a :: error + ('t, 'w) goal)
          (\<lambda>g. terms (fst (fold exec cs (g, h)))) = Inr r) \<and>
   (\<exists>r. and_then (MaxMinGoal_init a :: error + ('t, 'w) goal)
          (\<lambda>g. terms (fst (fold exec cs (g, h)))) = Inr r) \<and>
   (\<exists>ps g'. and_then (MaxSMTGoal_init clause weight :: error + ('t, 'w) goal)
          (\<lambda>g. iterate_soft (fst (fold exec cs (g, h)))) = Inr (ps, g'))"
proof -
  let ?g = "MaxSMTGoalObj (zip_builtin clause weight) :: ('t, 'w) goal"
  have "class_of (fst (fold exec cs (?g, h))) = MaxSMTGoal"
    by (simp add: class_of_fold_exec)
  then obtain s where "fst (fold exec cs (?g, h)) = MaxSMTGoalObj s"
    using MaxSMTGoal_cases by blast
  then have "\<exists>ps g'. iterate_soft (fst (fold exec cs (?g, h))) = Inr (ps, g')"
    by (simp add: split_beta)
  then show ?thesis
    by (simp add: MaximizationGoal_init_def MinimizationGoal_init_def MinMaxGoal_init_def
          MaxMinGoal_init_def MaxSMTGoal_init_def fold_exec_MaximizationGoal
          fold_exec_MinimizationGoal fold_exec_MinMaxGoal fold_exec_MaxMinGoal)
qed

text \<open>
  C9. \<open>Goal()\<close> returns an instance of \<open>Goal\<close>, and on it all five kind predicates and
  \<open>is_simple_goal\<close> are false: none of the kinds is reported.
\<close>

theorem C9_bare_goal:
  "(Goal_init :: error + ('t, 'w) goal) = Inr GoalObj \<and>
   class_of (GoalObj :: ('t, 'w) goal) = Goal \<and>
   and_then (Goal_init :: error + ('t, 'w) goal)
     (\<lambda>g. Inr [is_maximization_goal g, is_minimization_goal g, is_minmax_goal g,
               is_maxmin_goal g, is_maxsmt_goal g])
     = Inr [False, False, False, False, False] \<and>
   and_then (Goal_init :: error + ('t, 'w) goal) is_simple_goal = Inr False"
  by (simp add: Goal_init_def is_maximization_goal_def is_minimization_goal_def
        is_minmax_goal_def is_maxmin_goal_def is_maxsmt_goal_def isinstance_def
        is_simple_goal_def)

text \<open>
  C10. An aggregate goal made from the list at reference \<open>a\<close> returns \<open>a\<close> itself from
  \<open>terms()\<close>, before and after \<open>add_terms\<close>; \<open>add_terms\<close> writes the list at \<open>a\<close> and
  nothing else. So the caller's own list, and whatever \<open>terms()\<close> returned earlier, show
  the appended terms.
\<close>

theorem C10_terms_is_a_live_view:
  "h a = Some T \<Longrightarrow>
   and_then (MinMaxGoal_init a :: error + ('t, 'w) goal)
     (\<lambda>g. and_then (terms g)
        (\<lambda>before. and_then (add_terms g E h)
           (\<lambda>h'. and_then (terms g)
              (\<lambda>after. Inr (before, after, h')))))
     = Inr (a, a, h(a := Some (T @ E))) \<and>
   and_then (MaxMinGoal_init a :: error + ('t, 'w) goal)
     (\<lambda>g. and_then (terms g)
        (\<lambda>before. and_then (add_terms g E h)
           (\<lambda>h'. and_then (terms g)
              (\<lambda>after. Inr (before, after, h')))))
     = Inr (a, a, h(a := Some (T @ E)))"
  by (simp add: MinMaxGoal_init_def MaxMinGoal_init_def list_extend_def)

theorem C10_terms_is_a_live_view_witness:
  "(Map.empty(5 := Some [''x''])) (5::nat) = Some [''x''] \<and>
   and_then (MinMaxGoal_init 5 :: error + (string, int) goal)
     (\<lambda>g. and_then (terms g)
        (\<lambda>before. and_then (add_terms g [''y'', ''z''] (Map.empty(5 := Some [''x''])))
           (\<lambda>h'. and_then (terms g)
              (\<lambda>after. Inr (before, after, h')))))
     = Inr (5, 5, Map.empty(5 := Some [''x'', ''y'', ''z''])) \<and>
   and_then (MaxMinGoal_init 5 :: error + (string, int) goal)
     (\<lambda>g. and_then (terms g)
        (\<lambda>before. and_then (add_terms g [''y'', ''z''] (Map.empty(5 := Some [''x''])))
           (\<lambda>h'. and_then (terms g)
              (\<lambda>after. Inr (before, after, h')))))
     = Inr (5, 5, Map.empty(5 := Some [''x'', ''y'', ''z'']))"
  using C10_terms_is_a_live_view
    [of "Map.empty(5 := Some [''x''])" 5 "[''x'']" "[''y'', ''z'']"]
  by simp

end
